theory Spec2Isabelle
  imports Complex_Main
begin

section \<open>Values of the policy runtime\<close>

text \<open>
  The policies of \<^verbatim>\<open>src/security.ts\<close> read untyped resource properties, compare
  numbers and build messages from template literals.  A JavaScript \<^verbatim>\<open>number\<close> is a
  finite value, one of the two infinities, or NaN.  Finite values are modelled by the
  rationals: every finite double is a rational, comparisons of doubles are exact, and the
  only arithmetic of the policies is on millisecond timestamps (integers far below
  \<open>2 ^ 53\<close>), where the floored quotient by \<open>msInDay\<close> is the integer quotient.
\<close>

datatype number = NaN | NegInfinity | Fin rat | Infinity

text \<open>The operators \<^verbatim>\<open><\<close> and \<^verbatim>\<open>></\<close> on numbers: false as soon as one side is NaN.\<close>

fun lt :: "number \<Rightarrow> number \<Rightarrow> bool" where
  "lt NaN _ = False"
| "lt _ NaN = False"
| "lt NegInfinity NegInfinity = False"
| "lt NegInfinity _ = True"
| "lt (Fin a) NegInfinity = False"
| "lt (Fin a) (Fin b) = (a < b)"
| "lt (Fin a) Infinity = True"
| "lt Infinity _ = False"

definition gt :: "number \<Rightarrow> number \<Rightarrow> bool" where
  "gt a b = lt b a"

datatype jsval =
    JUndefined
  | JNull
  | JBool bool
  | JNum number
  | JStr string
  | JArr "jsval list"
  | JObj "(string \<times> jsval) list"

text \<open>What \<^verbatim>\<open>!v\<close> negates: the values that count as true in a condition.\<close>

fun truthy :: "jsval \<Rightarrow> bool" where
  "truthy JUndefined = False"
| "truthy JNull = False"
| "truthy (JBool b) = b"
| "truthy (JNum n) = (n \<noteq> NaN \<and> n \<noteq> Fin 0)"
| "truthy (JStr s) = (s \<noteq> [])"
| "truthy (JArr _) = True"
| "truthy (JObj _) = True"

text \<open>
  \<^verbatim>\<open>a === v\<close> where \<open>a\<close> is an optional string field of a provider response
  (absent reads as \<^verbatim>\<open>undefined\<close>) and \<open>v\<close> is any value.
\<close>

fun strictEq :: "string option \<Rightarrow> jsval \<Rightarrow> bool" where
  "strictEq None v = (v = JUndefined)"
| "strictEq (Some a) v = (v = JStr a)"

text \<open>
  A template literal keeps its interpolated values: turning a value into text is the
  runtime's work, not the policy's.
\<close>

datatype part = Lit string | Interp jsval

type_synonym message = "part list"

datatype error = Error string

section \<open>Resources and the typed filter\<close>

record resource =
  type :: string
  props :: "string \<rightharpoonup> jsval"

record stackValidationArgs =
  resources :: "resource list"

text \<open>A resolved resource is the property bag of a resource; reading a missing field gives
  \<^verbatim>\<open>undefined\<close>.\<close>

type_synonym resolved = "string \<rightharpoonup> jsval"

definition field :: "resolved \<Rightarrow> string \<Rightarrow> jsval" where
  "field r k = (case r k of None \<Rightarrow> JUndefined | Some v \<Rightarrow> v)"

text \<open>\<^verbatim>\<open>{ ...r.props, __pulumiType: r.type }\<close>\<close>

definition resolve :: "resource \<Rightarrow> resolved" where
  "resolve r = (props r)(''__pulumiType'' \<mapsto> JStr (type r))"

text \<open>
  The \<^verbatim>\<open>isInstance\<close> guard of a resource class of the provider package compares the
  \<^verbatim>\<open>__pulumiType\<close> of the object with the type token of the class.
\<close>

definition isInstance :: "string \<Rightarrow> resolved \<Rightarrow> bool" where
  "isInstance token obj = (obj ''__pulumiType'' = Some (JStr token))"

definition acmCertificate :: string where
  "acmCertificate = ''aws:acm/certificate:Certificate''"

definition kmsKey :: string where
  "kmsKey = ''aws:kms/key:Key''"

definition iamAccessKey :: string where
  "iamAccessKey = ''aws:iam/accessKey:AccessKey''"

definition iamUserLoginProfile :: string where
  "iamUserLoginProfile = ''aws:iam/userLoginProfile:UserLoginProfile''"

section \<open>The provider and the state of a validation\<close>

text \<open>
  The responses of the AWS SDK, with the fields the policies read.  A \<^verbatim>\<open>Date\<close> is its
  time in milliseconds.
\<close>

record certificateDetail =
  NotAfter :: "int option"

record describeCertificateResponse =
  Certificate :: "certificateDetail option"

record accessKeyMetadata =
  AccessKeyId :: "string option"
  CreateDate :: "int option"

record listAccessKeysResponse =
  AccessKeyMetadata :: "accessKeyMetadata list"
  IsTruncated :: "bool option"
  Marker :: "string option"

record listMFADevicesResponse =
  MFADevices :: "string list"

text \<open>
  Everything outside the policy pack (the provider and the clock) is a world \<open>'w\<close> that
  each call may read and change.  A call that rejects returns \<open>Inl\<close>.
\<close>

record 'w sdk =
  describeCertificate :: "jsval \<Rightarrow> 'w \<Rightarrow> (error + describeCertificateResponse) \<times> 'w"
  listAccessKeys :: "jsval \<Rightarrow> string option \<Rightarrow> 'w \<Rightarrow> (error + listAccessKeysResponse) \<times> 'w"
  listMFADevices :: "jsval \<Rightarrow> 'w \<Rightarrow> (error + listMFADevicesResponse) \<times> 'w"
  dateNow :: "'w \<Rightarrow> int \<times> 'w"

text \<open>The state of one validation: the world, and the messages given to
  \<^verbatim>\<open>reportViolation\<close> so far, in report order.\<close>

record 'w state =
  world :: 'w
  reported :: "message list"

definition reportViolation :: "message \<Rightarrow> 'w state \<Rightarrow> 'w state" where
  "reportViolation m s = s\<lparr>reported := reported s @ [m]\<rparr>"

text \<open>
  A validation run to its end returns \<open>Some\<close> of its outcome (\<open>Inl\<close> when the body
  rejected) and the final state; \<open>None\<close> is a validation that never returns.
\<close>

type_synonym 'w outcome = "((error + unit) \<times> 'w state) option"

type_synonym 'w stackValidation = "stackValidationArgs \<Rightarrow> 'w state \<Rightarrow> 'w outcome"

type_synonym 'w resourceValidation = "resource \<Rightarrow> 'w state \<Rightarrow> 'w outcome"

text \<open>
  The local helper \<^verbatim>\<open>validateTypedResources\<close>.  It calls the body on the filtered
  resources and lets go of the promise the body returns; what is modelled is what the body
  does once it has run to its end.
\<close>

definition validateTypedResources ::
  "(resolved \<Rightarrow> bool) \<Rightarrow> (resolved list \<Rightarrow> stackValidationArgs \<Rightarrow> 'w state \<Rightarrow> 'w outcome)
    \<Rightarrow> 'w stackValidation" where
  "validateTypedResources typeFilter validate args =
     validate (filter typeFilter (map resolve (resources args))) args"

text \<open>
  The helper \<^verbatim>\<open>validateTypedResource\<close> imported from the policy SDK: the body runs on
  the properties of a resource of the given class, and on no other resource.
\<close>

definition validateTypedResource ::
  "string \<Rightarrow> (resolved \<Rightarrow> resource \<Rightarrow> 'w state \<Rightarrow> 'w outcome) \<Rightarrow> 'w resourceValidation" where
  "validateTypedResource token validate args s =
     (if isInstance token (resolve args) then validate (resolve args) args s
      else Some (Inr (), s))"

section \<open>Policies\<close>

text \<open>
  The four policies of \<^verbatim>\<open>src/security.ts\<close>.  Their bodies create the SDK clients
  (\<^verbatim>\<open>new AWS.ACM()\<close>, \<^verbatim>\<open>new AWS.IAM()\<close>) themselves; here the provider is a parameter
  of the policy.  The later copy of the four policies, which takes its settings as one
  argument object, has the same bodies and the same guard on \<^verbatim>\<open>maxKeyAge\<close>.
\<close>

datatype EnforcementLevel = advisory | mandatory | disabled

record policyHead =
  name :: string
  description :: string
  enforcementLevel :: EnforcementLevel

record 'w stackValidationPolicy = policyHead +
  validateStack :: "'w stackValidation"

record 'w resourceValidationPolicy = policyHead +
  validateResource :: "'w resourceValidation"

datatype 'w policy =
    StackPolicy "'w stackValidationPolicy"
  | ResourcePolicy "'w resourceValidationPolicy"

definition msInDay :: int where
  "msInDay = 24 * 60 * 60 * 1000"

text \<open>A parameter \<^verbatim>\<open>enforcementLevel = "advisory"\<close>: the default stands in for an
  argument left undefined.\<close>

definition orAdvisory :: "EnforcementLevel option \<Rightarrow> EnforcementLevel" where
  "orAdvisory e = (case e of None \<Rightarrow> advisory | Some l \<Rightarrow> l)"

subsection \<open>acm-certificate-expiration\<close>

definition certificateExpiresMessage :: "int \<Rightarrow> number \<Rightarrow> message" where
  "certificateExpiresMessage daysUntilExpiry maxDaysUntilExpiration =
     [Lit ''certificate expires in '', Interp (JNum (Fin (of_int daysUntilExpiry))),
      Lit '' (max allowed '', Interp (JNum maxDaysUntilExpiration), Lit '' days)'']"

text \<open>The loop over the certificates of the stack.  A rejected
  \<^verbatim>\<open>describeCertificate\<close> ends the body.\<close>

fun acmCertificatesLoop ::
  "'w sdk \<Rightarrow> number \<Rightarrow> resolved list \<Rightarrow> 'w state \<Rightarrow> (error + unit) \<times> 'w state" where
  "acmCertificatesLoop acm maxDaysUntilExpiration [] s = (Inr (), s)"
| "acmCertificatesLoop acm maxDaysUntilExpiration (certInStack # rest) s =
     (case describeCertificate acm (field certInStack ''id'') (world s) of
        (Inl e, w) \<Rightarrow> (Inl e, s\<lparr>world := w\<rparr>)
      | (Inr describeCertResp, w) \<Rightarrow>
          (case Certificate describeCertResp of
             None \<Rightarrow> acmCertificatesLoop acm maxDaysUntilExpiration rest (s\<lparr>world := w\<rparr>)
           | Some certDescription \<Rightarrow>
               (case NotAfter certDescription of
                  None \<Rightarrow> acmCertificatesLoop acm maxDaysUntilExpiration rest (s\<lparr>world := w\<rparr>)
                | Some notAfter \<Rightarrow>
                    (case dateNow acm w of
                       (now, w') \<Rightarrow>
                         (let daysUntilExpiry = (notAfter - now) div msInDay;
                              s' = s\<lparr>world := w'\<rparr>
                          in acmCertificatesLoop acm maxDaysUntilExpiration rest
                               (if lt (Fin (of_int daysUntilExpiry)) maxDaysUntilExpiration
                                then reportViolation
                                  (certificateExpiresMessage daysUntilExpiry maxDaysUntilExpiration) s'
                                else s'))))))"

definition acmCheckCertificateExpiration ::
  "'w sdk \<Rightarrow> EnforcementLevel option \<Rightarrow> number \<Rightarrow> 'w stackValidationPolicy" where
  "acmCheckCertificateExpiration aws enforcement maxDaysUntilExpiration =
     \<lparr> name = ''acm-certificate-expiration'',
       description = ''Checks whether an ACM certificate has expired. Certificates provided by ACM are automatically renewed. ACM does not automatically renew certificates that you import.'',
       enforcementLevel = orAdvisory enforcement,
       validateStack = validateTypedResources (isInstance acmCertificate)
         (\<lambda>acmCertificates args s.
            Some (acmCertificatesLoop aws maxDaysUntilExpiration acmCertificates s)) \<rparr>"

subsection \<open>cmk-backing-key-rotation-enabled\<close>

definition cmkRotationMessage :: message where
  "cmkRotationMessage = [Lit ''CMK does not have the key rotation setting enabled'']"

definition cmkBackingKeyRotationEnabled ::
  "EnforcementLevel option \<Rightarrow> 'w resourceValidationPolicy" where
  "cmkBackingKeyRotationEnabled enforcement =
     \<lparr> name = ''cmk-backing-key-rotation-enabled'',
       description = ''Checks that key rotation is enabled for each customer master key (CMK). Checks that key rotation is enabled for specific key object. Does not apply to CMKs that have imported key material.'',
       enforcementLevel = orAdvisory enforcement,
       validateResource = validateTypedResource kmsKey
         (\<lambda>instance args s.
            Some (Inr (),
              if \<not> truthy (field instance ''enableKeyRotation'')
              then reportViolation cmkRotationMessage s else s)) \<rparr>"

subsection \<open>access-keys-rotated\<close>

definition keyMustBeRotatedMessage :: "number \<Rightarrow> int \<Rightarrow> message" where
  "keyMustBeRotatedMessage maxKeyAge daysSinceCreated =
     [Lit ''access key must be rotated within '', Interp (JNum maxKeyAge),
      Lit '' days (key is '', Interp (JNum (Fin (of_int daysSinceCreated))),
      Lit '' days old)'']"

text \<open>The inner loop over the \<^verbatim>\<open>AccessKeyMetadata\<close> of one page.\<close>

fun accessKeyMetadataLoop ::
  "'w sdk \<Rightarrow> number \<Rightarrow> resolved \<Rightarrow> accessKeyMetadata list \<Rightarrow> 'w state \<Rightarrow> 'w state" where
  "accessKeyMetadataLoop iam maxKeyAge instance [] s = s"
| "accessKeyMetadataLoop iam maxKeyAge instance (accessKey # rest) s =
     (if strictEq (AccessKeyId accessKey) (field instance ''id'')
      then (case CreateDate accessKey of
              None \<Rightarrow> accessKeyMetadataLoop iam maxKeyAge instance rest s
            | Some createDate \<Rightarrow>
                (case dateNow iam (world s) of
                   (now, w) \<Rightarrow>
                     (let daysSinceCreated = (now - createDate) div msInDay;
                          s' = s\<lparr>world := w\<rparr>
                      in accessKeyMetadataLoop iam maxKeyAge instance rest
                           (if gt (Fin (of_int daysSinceCreated)) maxKeyAge
                            then reportViolation
                              (keyMustBeRotatedMessage maxKeyAge daysSinceCreated) s'
                            else s'))))
      else accessKeyMetadataLoop iam maxKeyAge instance rest s)"

text \<open>
  The \<^verbatim>\<open>do ... while (accessKeysResp.IsTruncated)\<close> loop over the pages of one user,
  entered with the pagination token of the page to fetch.
\<close>

partial_function (option) listAccessKeysLoop ::
  "'w sdk \<Rightarrow> number \<Rightarrow> resolved \<Rightarrow> string option \<Rightarrow> 'w state \<Rightarrow> 'w outcome" where
  "listAccessKeysLoop iam maxKeyAge instance paginationToken s =
     (case listAccessKeys iam (field instance ''user'') paginationToken (world s) of
        (Inl e, w) \<Rightarrow> Some (Inl e, s\<lparr>world := w\<rparr>)
      | (Inr accessKeysResp, w) \<Rightarrow>
          (let s' = accessKeyMetadataLoop iam maxKeyAge instance
                      (AccessKeyMetadata accessKeysResp) (s\<lparr>world := w\<rparr>)
           in if IsTruncated accessKeysResp = Some True
              then listAccessKeysLoop iam maxKeyAge instance (Marker accessKeysResp) s'
              else Some (Inr (), s')))"

text \<open>The outer loop over the access keys of the stack.\<close>

fun accessKeysLoop :: "'w sdk \<Rightarrow> number \<Rightarrow> resolved list \<Rightarrow> 'w state \<Rightarrow> 'w outcome" where
  "accessKeysLoop iam maxKeyAge [] s = Some (Inr (), s)"
| "accessKeysLoop iam maxKeyAge (instance # rest) s =
     (if \<not> truthy (field instance ''id'') \<or> field instance ''status'' \<noteq> JStr ''Active''
      then accessKeysLoop iam maxKeyAge rest s
      else (case listAccessKeysLoop iam maxKeyAge instance None s of
              None \<Rightarrow> None
            | Some (Inl e, s') \<Rightarrow> Some (Inl e, s')
            | Some (Inr u, s') \<Rightarrow> accessKeysLoop iam maxKeyAge rest s'))"

definition iamAccessKeysRotated ::
  "'w sdk \<Rightarrow> EnforcementLevel option \<Rightarrow> number \<Rightarrow> error + 'w stackValidationPolicy" where
  "iamAccessKeysRotated aws enforcement maxKeyAge =
     (if lt maxKeyAge (Fin 1) \<or> gt maxKeyAge (Fin (2 * 365))
      then Inl (Error ''Invalid maxKeyAge.'')
      else Inr
        \<lparr> name = ''access-keys-rotated'',
          description = ''Checks whether an access key have been rotated within maxKeyAge days.'',
          enforcementLevel = orAdvisory enforcement,
          validateStack = validateTypedResources (isInstance iamAccessKey)
            (\<lambda>accessKeys args s. accessKeysLoop aws maxKeyAge accessKeys s) \<rparr>)"

subsection \<open>mfa-enabled-for-iam-console-access\<close>

definition noMfaDeviceMessage :: "jsval \<Rightarrow> message" where
  "noMfaDeviceMessage user =
     [Lit (''no MFA device enabled for IAM User '' @ [CHR 0x27]), Interp user, Lit [CHR 0x27]]"

definition iamMfaEnabledForConsoleAccess ::
  "'w sdk \<Rightarrow> EnforcementLevel option \<Rightarrow> 'w resourceValidationPolicy" where
  "iamMfaEnabledForConsoleAccess aws enforcement =
     \<lparr> name = ''mfa-enabled-for-iam-console-access'',
       description = ''Checks whether multi-factor Authentication (MFA) is enabled for an IAM user that use a console password.'',
       enforcementLevel = orAdvisory enforcement,
       validateResource = validateTypedResource iamUserLoginProfile
         (\<lambda>instance args s.
            (case listMFADevices aws (field instance ''user'') (world s) of
               (Inl e, w) \<Rightarrow> Some (Inl e, s\<lparr>world := w\<rparr>)
             | (Inr mfaDevicesResp, w) \<Rightarrow>
                 Some (Inr (),
                   if length (MFADevices mfaDevicesResp) = 0
                   then reportViolation (noMfaDeviceMessage (field instance ''user'')) (s\<lparr>world := w\<rparr>)
                   else s\<lparr>world := w\<rparr>))) \<rparr>"

subsection \<open>The policy set\<close>

record securityPolicySettings =
  acmCheckCertificateExpirationMaxDays :: "number option"
  iamAccessKeysRotatedMaxDays :: "number option"

text \<open>
  Modelled from the spec: \<^verbatim>\<open>getValueOrDefault\<close> of \<^verbatim>\<open>./util\<close>, which is not among the
  sources.  The specification has unspecified settings fall back to their defaults, by
  a pure merge: the override if present, else the default.
\<close>

definition getValueOrDefault :: "'a option \<Rightarrow> 'a \<Rightarrow> 'a" where
  "getValueOrDefault val def = (case val of None \<Rightarrow> def | Some v \<Rightarrow> v)"

text \<open>The array literal is built left to right; a policy that throws ends it.\<close>

definition getPolicies ::
  "'w sdk \<Rightarrow> EnforcementLevel \<Rightarrow> securityPolicySettings \<Rightarrow> error + 'w policy list" where
  "getPolicies aws enforcement settings =
     (let p1 = acmCheckCertificateExpiration aws (Some enforcement)
                 (getValueOrDefault (acmCheckCertificateExpirationMaxDays settings) (Fin 14));
          p2 = cmkBackingKeyRotationEnabled (Some enforcement)
      in case iamAccessKeysRotated aws (Some enforcement)
                (getValueOrDefault (iamAccessKeysRotatedMaxDays settings) (Fin 90)) of
           Inl e \<Rightarrow> Inl e
         | Inr p3 \<Rightarrow>
             Inr [StackPolicy p1, ResourcePolicy p2, StackPolicy p3,
                  ResourcePolicy (iamMfaEnabledForConsoleAccess aws (Some enforcement))])"

section \<open>A provider for the examples\<close>

text \<open>
  The examples run the policies against a provider whose world is the number of requests
  it has served, with a clock that stands still, a fixed certificate description, the
  access-key pages as a function of the marker, and a fixed list of MFA devices.
\<close>

definition exampleProvider ::
  "describeCertificateResponse \<Rightarrow> (string option \<Rightarrow> error + listAccessKeysResponse)
    \<Rightarrow> string list \<Rightarrow> int \<Rightarrow> nat sdk" where
  "exampleProvider cert pages devices now =
     \<lparr> describeCertificate = (\<lambda>arn w. (Inr cert, Suc w)),
       listAccessKeys = (\<lambda>user marker w. (pages marker, Suc w)),
       listMFADevices = (\<lambda>user w. (Inr \<lparr> MFADevices = devices \<rparr>, Suc w)),
       dateNow = (\<lambda>w. (now, w)) \<rparr>"

definition noCertificate :: describeCertificateResponse where
  "noCertificate = \<lparr> Certificate = None \<rparr>"

definition certificateUntil :: "int option \<Rightarrow> describeCertificateResponse" where
  "certificateUntil t = \<lparr> Certificate = Some \<lparr> NotAfter = t \<rparr> \<rparr>"

text \<open>Every page announces another one.\<close>

definition endlessPages :: "string option \<Rightarrow> error + listAccessKeysResponse" where
  "endlessPages marker =
     Inr \<lparr> AccessKeyMetadata = [], IsTruncated = Some True, Marker = Some ''more'' \<rparr>"

text \<open>Two pages: a foreign key on the first, the key \<open>AKIA1\<close> created at time \<open>0\<close> on the
  second.\<close>

definition twoPages :: "string option \<Rightarrow> error + listAccessKeysResponse" where
  "twoPages marker =
     (case marker of
        None \<Rightarrow> Inr \<lparr> AccessKeyMetadata = [\<lparr> AccessKeyId = Some ''AKIA0'', CreateDate = Some 0 \<rparr>],
                      IsTruncated = Some True, Marker = Some ''page2'' \<rparr>
      | Some m \<Rightarrow> Inr \<lparr> AccessKeyMetadata = [\<lparr> AccessKeyId = Some ''AKIA1'', CreateDate = Some 0 \<rparr>],
                       IsTruncated = None, Marker = None \<rparr>)"

definition throttledPages :: "string option \<Rightarrow> error + listAccessKeysResponse" where
  "throttledPages marker = Inl (Error ''Throttling'')"

definition exampleCertificate :: resource where
  "exampleCertificate =
     \<lparr> type = acmCertificate, props = [''id'' \<mapsto> JStr ''arn:aws:acm:cert/1''] \<rparr>"

definition exampleAccessKey :: "string \<Rightarrow> resource" where
  "exampleAccessKey status =
     \<lparr> type = iamAccessKey,
       props = [''id'' \<mapsto> JStr ''AKIA1'', ''user'' \<mapsto> JStr ''alice'', ''status'' \<mapsto> JStr status] \<rparr>"

definition exampleKey :: "jsval option \<Rightarrow> resource" where
  "exampleKey rotation =
     \<lparr> type = kmsKey, props = (\<lambda>k. if k = ''enableKeyRotation'' then rotation else None) \<rparr>"

definition exampleLoginProfile :: resource where
  "exampleLoginProfile =
     \<lparr> type = iamUserLoginProfile, props = [''user'' \<mapsto> JStr ''alice''] \<rparr>"

definition start :: "nat state" where
  "start = \<lparr> world = 0, reported = [] \<rparr>"

section \<open>Auxiliary facts\<close>

lemmas example_defs = exampleProvider_def noCertificate_def certificateUntil_def endlessPages_def
  twoPages_def throttledPages_def exampleCertificate_def exampleAccessKey_def exampleKey_def
  exampleLoginProfile_def start_def acmCertificate_def kmsKey_def iamAccessKey_def
  iamUserLoginProfile_def

text \<open>The type guard only looks at the type of the resource: the spread writes
  \<^verbatim>\<open>__pulumiType\<close> last.\<close>

lemma isInstance_resolve: "isInstance token (resolve r) = (type r = token)"
  by (auto simp: isInstance_def resolve_def)

lemma field_resolve: "k \<noteq> ''__pulumiType'' \<Longrightarrow> field (resolve r) k = field (props r) k"
  by (simp add: field_def resolve_def)

lemma field_absent: "r k = None \<Longrightarrow> field r k = JUndefined"
  by (simp add: field_def)

lemma strictEq_truthy: "truthy v \<Longrightarrow> strictEq a v = (\<exists>k. a = Some k \<and> v = JStr k)"
  by (cases a) auto

text \<open>One turn of the pagination loop, by the answer of the provider.\<close>

lemma listAccessKeysLoop_last:
  "listAccessKeys iam (field inst ''user'') tok (world s) = (Inr resp, w) \<Longrightarrow>
   IsTruncated resp \<noteq> Some True \<Longrightarrow>
   listAccessKeysLoop iam m inst tok s =
     Some (Inr (), accessKeyMetadataLoop iam m inst (AccessKeyMetadata resp) (s\<lparr>world := w\<rparr>))"
  by (subst listAccessKeysLoop.simps) (simp add: Let_def)

lemma listAccessKeysLoop_more:
  "listAccessKeys iam (field inst ''user'') tok (world s) = (Inr resp, w) \<Longrightarrow>
   IsTruncated resp = Some True \<Longrightarrow>
   listAccessKeysLoop iam m inst tok s =
     listAccessKeysLoop iam m inst (Marker resp)
       (accessKeyMetadataLoop iam m inst (AccessKeyMetadata resp) (s\<lparr>world := w\<rparr>))"
  by (subst listAccessKeysLoop.simps) (simp add: Let_def)

lemma listAccessKeysLoop_rejected:
  "listAccessKeys iam (field inst ''user'') tok (world s) = (Inl e, w) \<Longrightarrow>
   listAccessKeysLoop iam m inst tok s = Some (Inl e, s\<lparr>world := w\<rparr>)"
  by (subst listAccessKeysLoop.simps) simp

text \<open>
  A provider that marks every page as truncated keeps the loop from returning: were there
  a result, the fixpoint rule of the loop would give one for the next page as well.
\<close>

lemma listAccessKeysLoop_diverges:
  assumes "\<forall>u t w. \<exists>resp w'. listAccessKeys iam u t w = (Inr resp, w') \<and> IsTruncated resp = Some True"
  shows "listAccessKeysLoop iam m inst tok s = None"
proof (rule ccontr)
  let ?A = "\<lambda>iam :: 'a sdk. \<forall>u t w. \<exists>resp w'.
    listAccessKeys iam u t w = (Inr resp, w') \<and> IsTruncated resp = Some True"
  assume "listAccessKeysLoop iam m inst tok s \<noteq> None"
  then obtain y where y: "listAccessKeysLoop iam m inst tok s = Some y" by auto
  have "\<not> ?A iam"
  proof (rule listAccessKeysLoop.raw_induct[where P = "\<lambda>iam m inst tok s y. \<not> ?A iam", OF _ y])
    fix loop :: "'a sdk \<Rightarrow> number \<Rightarrow> resolved \<Rightarrow> string option \<Rightarrow> 'a state \<Rightarrow> 'a outcome"
    fix iam m inst tok s y
    assume IH: "\<And>iam m inst tok s y. loop iam m inst tok s = Some y \<Longrightarrow> \<not> ?A iam"
    assume step: "(case listAccessKeys iam (field inst ''user'') tok (world s) of
        (Inl e, w) \<Rightarrow> Some (Inl e, s\<lparr>world := w\<rparr>)
      | (Inr accessKeysResp, w) \<Rightarrow>
          (let s' = accessKeyMetadataLoop iam m inst
                      (AccessKeyMetadata accessKeysResp) (s\<lparr>world := w\<rparr>)
           in if IsTruncated accessKeysResp = Some True
              then loop iam m inst (Marker accessKeysResp) s'
              else Some (Inr (), s'))) = Some y"
    show "\<not> ?A iam"
    proof
      assume a: "?A iam"
      then obtain resp w' where
        "listAccessKeys iam (field inst ''user'') tok (world s) = (Inr resp, w')"
        "IsTruncated resp = Some True" by blast
      with step have "loop iam m inst (Marker resp)
         (accessKeyMetadataLoop iam m inst (AccessKeyMetadata resp) (s\<lparr>world := w'\<rparr>)) = Some y"
        by (simp add: Let_def)
      from IH[OF this] a show False by blast
    qed
  qed
  with assms show False by blast
qed

text \<open>
  The loop returns when the truncated pages cannot go on for ever: some measure of the
  pagination token and the world goes down with every truncated page, and reading the
  clock leaves it alone.
\<close>

lemma accessKeyMetadataLoop_measure:
  assumes clock: "\<And>t w now w'. dateNow iam w = (now, w') \<Longrightarrow> f t w' = f t w"
  shows "f t (world (accessKeyMetadataLoop iam m inst items s)) = f t (world s)"
proof (induction items arbitrary: s)
  case Nil
  show ?case by simp
next
  case (Cons a items)
  show ?case
  proof (cases "strictEq (AccessKeyId a) (field inst ''id'')")
    case False
    then show ?thesis using Cons.IH by simp
  next
    case True
    show ?thesis
    proof (cases "CreateDate a")
      case None
      with True show ?thesis using Cons.IH by simp
    next
      case (Some c)
      obtain now w where n: "dateNow iam (world s) = (now, w)"
        by (cases "dateNow iam (world s)")
      from clock[OF n] have "f t w = f t (world s)" .
      with True Some n show ?thesis
        using Cons.IH by (simp add: Let_def reportViolation_def)
    qed
  qed
qed

lemma listAccessKeysLoop_returns:
  fixes f :: "string option \<Rightarrow> 'w \<Rightarrow> nat"
  assumes dec: "\<And>u t w resp w'. listAccessKeys iam u t w = (Inr resp, w') \<Longrightarrow>
      IsTruncated resp = Some True \<Longrightarrow> f (Marker resp) w' < f t w"
    and clock: "\<And>t w now w'. dateNow iam w = (now, w') \<Longrightarrow> f t w' = f t w"
  shows "listAccessKeysLoop iam m inst tok s \<noteq> None"
proof (induction "f tok (world s)" arbitrary: tok s rule: less_induct)
  case less
  obtain r w where l: "listAccessKeys iam (field inst ''user'') tok (world s) = (r, w)"
    by (cases "listAccessKeys iam (field inst ''user'') tok (world s)")
  show ?case
  proof (cases r)
    case (Inl e)
    with l show ?thesis by (simp add: listAccessKeysLoop_rejected)
  next
    case (Inr resp)
    show ?thesis
    proof (cases "IsTruncated resp = Some True")
      case False
      with l Inr show ?thesis by (simp add: listAccessKeysLoop_last)
    next
      case True
      let ?s' = "accessKeyMetadataLoop iam m inst (AccessKeyMetadata resp) (s\<lparr>world := w\<rparr>)"
      from l Inr True have "f (Marker resp) w < f tok (world s)"
        by (auto intro: dec)
      moreover have "f (Marker resp) (world ?s') = f (Marker resp) w"
        using accessKeyMetadataLoop_measure
          [of iam f "Marker resp" m inst "AccessKeyMetadata resp" "s\<lparr>world := w\<rparr>"] clock
        by simp
      ultimately have "f (Marker resp) (world ?s') < f tok (world s)" by simp
      from less[OF this] have "listAccessKeysLoop iam m inst (Marker resp) ?s' \<noteq> None" .
      with l Inr True show ?thesis by (simp add: listAccessKeysLoop_more)
    qed
  qed
qed

text \<open>The guard on \<^verbatim>\<open>maxKeyAge\<close> compares; it does not ask for a number that is one.\<close>

lemma iamAccessKeysRotated_NaN: "\<not> isl (iamAccessKeysRotated aws e NaN)"
  by (simp add: iamAccessKeysRotated_def gt_def)

text \<open>Skipping an access key, and dropping an item of a page.\<close>

lemma accessKeysLoop_skip:
  assumes "\<not> truthy (field inst ''id'') \<or> field inst ''status'' \<noteq> JStr ''Active''"
  shows "accessKeysLoop iam m (pre @ inst # post) s = accessKeysLoop iam m (pre @ post) s"
proof (induction pre arbitrary: s)
  case Nil
  from assms show ?case by auto
next
  case (Cons a pre)
  show ?case
  proof (cases "\<not> truthy (field a ''id'') \<or> field a ''status'' \<noteq> JStr ''Active''")
    case True
    then show ?thesis using Cons.IH by auto
  next
    case False
    then show ?thesis using Cons.IH
      by (auto split: option.splits sum.splits prod.splits)
  qed
qed

lemma accessKeyMetadataLoop_discard:
  assumes "\<not> strictEq (AccessKeyId ak) (field inst ''id'') \<or> CreateDate ak = None"
  shows "accessKeyMetadataLoop iam m inst (pre @ ak # post) s =
         accessKeyMetadataLoop iam m inst (pre @ post) s"
proof (induction pre arbitrary: s)
  case Nil
  from assms show ?case by auto
next
  case (Cons a pre)
  then show ?case by (simp add: Let_def split: option.splits prod.splits)
qed

lemma accessKeyMetadataLoop_match:
  assumes "field inst ''id'' = JStr k" "AccessKeyId ak = Some k" "CreateDate ak = Some c"
    "dateNow iam (world s) = (now, w)"
  shows "accessKeyMetadataLoop iam m inst (ak # rest) s =
     accessKeyMetadataLoop iam m inst rest
       (s\<lparr>world := w, reported := reported s @
           (if lt m (Fin (of_int ((now - c) div msInDay)))
            then [keyMustBeRotatedMessage m ((now - c) div msInDay)] else [])\<rparr>)"
  using assms by (simp add: Let_def gt_def reportViolation_def)

text \<open>The loops run one part of a list after the other.\<close>

lemma acmCertificatesLoop_append:
  "acmCertificatesLoop aws m (xs @ ys) s =
     (case acmCertificatesLoop aws m xs s of
        (Inl e, s') \<Rightarrow> (Inl e, s')
      | (Inr u, s') \<Rightarrow> acmCertificatesLoop aws m ys s')"
  by (induction xs arbitrary: s) (simp_all add: Let_def split: prod.splits sum.splits option.splits)

lemma acmCheckCertificateExpiration_validateStack:
  "validateStack (acmCheckCertificateExpiration aws e m) args s =
     Some (acmCertificatesLoop aws m
       (filter (isInstance acmCertificate) (map resolve (resources args))) s)"
  by (simp add: acmCheckCertificateExpiration_def validateTypedResources_def)

lemma accessKeysLoop_append:
  "accessKeysLoop iam m (xs @ ys) s =
     (case accessKeysLoop iam m xs s of
        None \<Rightarrow> None
      | Some (Inl e, s') \<Rightarrow> Some (Inl e, s')
      | Some (Inr u, s') \<Rightarrow> accessKeysLoop iam m ys s')"
  by (induction xs arbitrary: s) (simp_all split: prod.splits sum.splits option.splits)

lemma accessKeyMetadataLoop_append:
  "accessKeyMetadataLoop iam m inst (xs @ ys) s =
     accessKeyMetadataLoop iam m inst ys (accessKeyMetadataLoop iam m inst xs s)"
  by (induction xs arbitrary: s) (simp_all add: Let_def split: prod.splits option.splits)

section \<open>The pagination loop\<close>

text \<open>
  C1 (as amended).  The access-key pagination loop of \<^verbatim>\<open>iamAccessKeysRotated\<close> has no
  page bound and raises no error of its own.  By the answer of the provider to the fetch
  at hand: a page whose \<^verbatim>\<open>IsTruncated\<close> is not true is processed and the loop returns; a
  page whose \<^verbatim>\<open>IsTruncated\<close> is true is processed and the loop goes on with the returned
  \<^verbatim>\<open>Marker\<close>; a rejected fetch ends the loop with the provider's error.  Against a provider
  that marks every page as truncated the loop never returns; it returns whenever the
  truncated pages of the provider come to an end, that is, when some measure of the
  pagination token and the provider's state goes down with every truncated page.
\<close>

theorem listAccessKeysLoop_unbounded:
  "(listAccessKeys iam (field inst ''user'') tok (world s) = (Inr resp, w)
      \<and> IsTruncated resp \<noteq> Some True \<longrightarrow>
    listAccessKeysLoop iam m inst tok s =
      Some (Inr (), accessKeyMetadataLoop iam m inst (AccessKeyMetadata resp) (s\<lparr>world := w\<rparr>)))
   \<and> (listAccessKeys iam (field inst ''user'') tok (world s) = (Inr resp, w)
      \<and> IsTruncated resp = Some True \<longrightarrow>
    listAccessKeysLoop iam m inst tok s =
      listAccessKeysLoop iam m inst (Marker resp)
        (accessKeyMetadataLoop iam m inst (AccessKeyMetadata resp) (s\<lparr>world := w\<rparr>)))
   \<and> (listAccessKeys iam (field inst ''user'') tok (world s) = (Inl e, w) \<longrightarrow>
    listAccessKeysLoop iam m inst tok s = Some (Inl e, s\<lparr>world := w\<rparr>))
   \<and> ((\<forall>u t w. \<exists>resp w'. listAccessKeys iam u t w = (Inr resp, w') \<and> IsTruncated resp = Some True)
      \<longrightarrow> listAccessKeysLoop iam m inst tok s = None)
   \<and> ((\<forall>u t w resp w'. listAccessKeys iam u t w = (Inr resp, w') \<and> IsTruncated resp = Some True
          \<longrightarrow> f (Marker resp) w' < (f t w :: nat))
      \<and> (\<forall>t w now w'. dateNow iam w = (now, w') \<longrightarrow> f t w' = f t w)
      \<longrightarrow> listAccessKeysLoop iam m inst tok s \<noteq> None)"
proof (intro conjI impI)
  assume "(\<forall>u t w resp w'. listAccessKeys iam u t w = (Inr resp, w') \<and> IsTruncated resp = Some True
          \<longrightarrow> f (Marker resp) w' < f t w)
      \<and> (\<forall>t w now w'. dateNow iam w = (now, w') \<longrightarrow> f t w' = f t w)"
  then show "listAccessKeysLoop iam m inst tok s \<noteq> None"
    by (intro listAccessKeysLoop_returns[where f = f]) blast+
qed (simp_all add: listAccessKeysLoop_last listAccessKeysLoop_more listAccessKeysLoop_rejected
      listAccessKeysLoop_diverges)

text \<open>
  Witness: two pages are fetched and the loop returns, with the violation of the key on
  the second page (91 days old, 90 allowed); a throttled fetch ends the loop with the
  provider's error; a provider that repeats a truncated page is never left; and the
  two-page provider, whose token goes from absent to present, always lets the loop return.
\<close>

theorem listAccessKeysLoop_unbounded_witness:
  "listAccessKeysLoop (exampleProvider noCertificate twoPages [] (91 * msInDay)) (Fin 90)
     (resolve (exampleAccessKey ''Active'')) None start
   = Some (Inr (), \<lparr>world = 2, reported = [keyMustBeRotatedMessage (Fin 90) 91]\<rparr>)
  \<and> listAccessKeysLoop (exampleProvider noCertificate throttledPages [] (91 * msInDay)) (Fin 90)
     (resolve (exampleAccessKey ''Active'')) None start
   = Some (Inl (Error ''Throttling''), \<lparr>world = 1, reported = []\<rparr>)
  \<and> listAccessKeysLoop (exampleProvider noCertificate endlessPages [] (91 * msInDay)) (Fin 730)
     (resolve (exampleAccessKey ''Active'')) (Some ''more'') start
   = None
  \<and> listAccessKeysLoop (exampleProvider noCertificate twoPages [] (91 * msInDay)) (Fin 1)
     (resolve (exampleAccessKey ''Inactive'')) (Some ''page9'') start
   \<noteq> None"
proof -
  let ?P = "exampleProvider noCertificate twoPages [] (91 * msInDay)"
  let ?T = "exampleProvider noCertificate throttledPages [] (91 * msInDay)"
  let ?E = "exampleProvider noCertificate endlessPages [] (91 * msInDay)"
  let ?i = "resolve (exampleAccessKey ''Active'')"
  let ?p1 = "\<lparr> AccessKeyMetadata = [\<lparr> AccessKeyId = Some ''AKIA0'', CreateDate = Some 0 \<rparr>],
               IsTruncated = Some True, Marker = Some ''page2'' \<rparr>"
  let ?p2 = "\<lparr> AccessKeyMetadata = [\<lparr> AccessKeyId = Some ''AKIA1'', CreateDate = Some 0 \<rparr>],
               IsTruncated = None, Marker = None \<rparr>"
  have f1: "listAccessKeys ?P (field ?i ''user'') None (world start) = (Inr ?p1, 1)
      \<and> IsTruncated ?p1 = Some True"
    by (simp add: example_defs)
  have a1: "accessKeyMetadataLoop ?P (Fin 90) ?i (AccessKeyMetadata ?p1) (start\<lparr>world := 1\<rparr>)
      = \<lparr>world = 1, reported = []\<rparr>"
    by (simp add: example_defs resolve_def field_def)
  have f2: "listAccessKeys ?P (field ?i ''user'') (Some ''page2'')
        (world \<lparr>world = 1::nat, reported = []\<rparr>) = (Inr ?p2, 2)
      \<and> IsTruncated ?p2 \<noteq> Some True"
    by (simp add: example_defs)
  have a2: "accessKeyMetadataLoop ?P (Fin 90) ?i (AccessKeyMetadata ?p2)
        (\<lparr>world = 1, reported = []\<rparr>\<lparr>world := 2\<rparr>)
      = \<lparr>world = 2, reported = [keyMustBeRotatedMessage (Fin 90) 91]\<rparr>"
    by (simp add: example_defs resolve_def field_def gt_def reportViolation_def msInDay_def)
  have f3: "listAccessKeys ?T (field ?i ''user'') None (world start) = (Inl (Error ''Throttling''), 1)"
    by (simp add: example_defs)
  have f4: "\<forall>u t w. \<exists>resp w'. listAccessKeys ?E u t w = (Inr resp, w') \<and> IsTruncated resp = Some True"
    by (simp add: exampleProvider_def endlessPages_def)
  from listAccessKeysLoop_unbounded[of ?P ?i None start ?p1 1 "Fin 90",
      THEN conjunct2, THEN conjunct1] f1 a1
  have s1: "listAccessKeysLoop ?P (Fin 90) ?i None start
     = listAccessKeysLoop ?P (Fin 90) ?i (Some ''page2'') \<lparr>world = 1, reported = []\<rparr>"
    by simp
  from listAccessKeysLoop_unbounded[of ?P ?i "Some ''page2''" "\<lparr>world = 1, reported = []\<rparr>" ?p2 2
      "Fin 90", THEN conjunct1] f2 a2
  have s2: "listAccessKeysLoop ?P (Fin 90) ?i (Some ''page2'') \<lparr>world = 1, reported = []\<rparr>
     = Some (Inr (), \<lparr>world = 2, reported = [keyMustBeRotatedMessage (Fin 90) 91]\<rparr>)"
    by simp
  from listAccessKeysLoop_unbounded[of ?T ?i None start _ 1 "Fin 90" "Error ''Throttling''",
      THEN conjunct2, THEN conjunct2, THEN conjunct1] f3
  have s3: "listAccessKeysLoop ?T (Fin 90) ?i None start
     = Some (Inl (Error ''Throttling''), \<lparr>world = 1, reported = []\<rparr>)"
    by (simp add: start_def)
  from listAccessKeysLoop_unbounded[of ?E ?i "Some ''more''" start _ _ "Fin 730",
      THEN conjunct2, THEN conjunct2, THEN conjunct2, THEN conjunct1] f4
  have s4: "listAccessKeysLoop ?E (Fin 730) ?i (Some ''more'') start = None"
    by blast
  let ?f = "\<lambda>(t :: string option) (w :: nat). case t of None \<Rightarrow> 1 | Some x \<Rightarrow> (0 :: nat)"
  have f5: "(\<forall>u t w resp w'. listAccessKeys ?P u t w = (Inr resp, w') \<and> IsTruncated resp = Some True
          \<longrightarrow> ?f (Marker resp) w' < ?f t w)
      \<and> (\<forall>t w now w'. dateNow ?P w = (now, w') \<longrightarrow> ?f t w' = ?f t w)"
    by (auto simp: exampleProvider_def twoPages_def split: option.splits)
  from listAccessKeysLoop_unbounded[where iam = ?P and f = ?f and m = "Fin 1"
      and inst = "resolve (exampleAccessKey ''Inactive'')" and tok = "Some ''page9''" and s = start,
      THEN conjunct2, THEN conjunct2, THEN conjunct2, THEN conjunct2] f5
  have s5: "listAccessKeysLoop ?P (Fin 1) (resolve (exampleAccessKey ''Inactive''))
      (Some ''page9'') start \<noteq> None"
    by blast
  from s1 s2 s3 s4 s5 show ?thesis by simp
qed

text \<open>
  The claim as written fails: with a provider that announces another page on every fetch,
  the loop neither stops at a page bound nor fails with an error; it does not return.
\<close>

theorem listAccessKeysLoop_endless_counterexample:
  "listAccessKeysLoop (exampleProvider noCertificate endlessPages [] 0) (Fin 90)
     (resolve (exampleAccessKey ''Active'')) None start = None"
  by (rule listAccessKeysLoop_diverges) (simp add: exampleProvider_def endlessPages_def)

section \<open>Thresholds at construction\<close>

text \<open>
  C2 (as amended).  Of the two numeric thresholds only the IAM \<^verbatim>\<open>maxKeyAge\<close> is validated
  when the policies are constructed: \<^verbatim>\<open>getPolicies\<close> fails with the error
  \<^verbatim>\<open>Invalid maxKeyAge.\<close>, returning no policy, when the configured \<^verbatim>\<open>maxKeyAge\<close> is below
  1 or above 730, and otherwise (also with the default of 90) returns the four policies.
  The ACM \<^verbatim>\<open>maxDaysUntilExpiration\<close> has no range: whatever number is configured (or the
  default of 14) goes into the policy unchecked.
\<close>

theorem getPolicies_validates_maxKeyAge_only:
  "(r < 1 \<or> 730 < r \<longrightarrow>
      getPolicies aws e
        \<lparr>acmCheckCertificateExpirationMaxDays = a, iamAccessKeysRotatedMaxDays = Some (Fin r)\<rparr>
      = Inl (Error ''Invalid maxKeyAge.''))
   \<and> (1 \<le> r \<and> r \<le> 730 \<longrightarrow>
      getPolicies aws e
        \<lparr>acmCheckCertificateExpirationMaxDays = a, iamAccessKeysRotatedMaxDays = Some (Fin r)\<rparr>
      = Inr [StackPolicy (acmCheckCertificateExpiration aws (Some e)
                            (case a of None \<Rightarrow> Fin 14 | Some d \<Rightarrow> d)),
             ResourcePolicy (cmkBackingKeyRotationEnabled (Some e)),
             StackPolicy (projr (iamAccessKeysRotated aws (Some e) (Fin r))),
             ResourcePolicy (iamMfaEnabledForConsoleAccess aws (Some e))])
   \<and> getPolicies aws e
        \<lparr>acmCheckCertificateExpirationMaxDays = a, iamAccessKeysRotatedMaxDays = None\<rparr>
      = Inr [StackPolicy (acmCheckCertificateExpiration aws (Some e)
                            (case a of None \<Rightarrow> Fin 14 | Some d \<Rightarrow> d)),
             ResourcePolicy (cmkBackingKeyRotationEnabled (Some e)),
             StackPolicy (projr (iamAccessKeysRotated aws (Some e) (Fin 90))),
             ResourcePolicy (iamMfaEnabledForConsoleAccess aws (Some e))]"
  by (auto simp: getPolicies_def getValueOrDefault_def iamAccessKeysRotated_def gt_def Let_def
      split: option.splits)

text \<open>Witness: a key age of 0 days is refused and one of 730 days is accepted, both next
  to an ACM threshold of 5000 days.\<close>

theorem getPolicies_validates_maxKeyAge_only_witness:
  "getPolicies (exampleProvider noCertificate endlessPages [] 0) mandatory
      \<lparr>acmCheckCertificateExpirationMaxDays = Some (Fin 5000),
       iamAccessKeysRotatedMaxDays = Some (Fin 0)\<rparr>
    = Inl (Error ''Invalid maxKeyAge.'')
   \<and> \<not> isl (getPolicies (exampleProvider noCertificate endlessPages [] 0) mandatory
      \<lparr>acmCheckCertificateExpirationMaxDays = Some (Fin 5000),
       iamAccessKeysRotatedMaxDays = Some (Fin 730)\<rparr>)"
  using getPolicies_validates_maxKeyAge_only
      [of 0 "exampleProvider noCertificate endlessPages [] 0" mandatory "Some (Fin 5000)"]
    getPolicies_validates_maxKeyAge_only
      [of 730 "exampleProvider noCertificate endlessPages [] 0" mandatory "Some (Fin 5000)"]
  by auto

text \<open>
  The claim as written fails: an ACM threshold of \<open>-1\<close> days is accepted, and the
  policy set is constructed.
\<close>

theorem getPolicies_acm_threshold_counterexample:
  "\<not> isl (getPolicies (exampleProvider noCertificate endlessPages [] 0) mandatory
     \<lparr>acmCheckCertificateExpirationMaxDays = Some (Fin (- 1)),
      iamAccessKeysRotatedMaxDays = None\<rparr>)"
  by (simp add: getPolicies_def getValueOrDefault_def iamAccessKeysRotated_def gt_def)

text \<open>
  C4.  Constructing \<^verbatim>\<open>iamAccessKeysRotated\<close> with a \<^verbatim>\<open>maxKeyAge\<close> below 1 or above 730
  (for example 0, or an infinity) throws the error \<^verbatim>\<open>Invalid maxKeyAge.\<close>: the result is
  the error and no policy, hence no validation body to run.  For a \<^verbatim>\<open>maxKeyAge\<close> from 1
  to 730 construction succeeds and returns the policy \<^verbatim>\<open>access-keys-rotated\<close>.
\<close>

theorem iamAccessKeysRotated_maxKeyAge_range:
  "(r < 1 \<or> 730 < r \<longrightarrow>
      iamAccessKeysRotated aws e (Fin r) = Inl (Error ''Invalid maxKeyAge.''))
   \<and> (1 \<le> r \<and> r \<le> 730 \<longrightarrow>
      \<not> isl (iamAccessKeysRotated aws e (Fin r))
      \<and> name (projr (iamAccessKeysRotated aws e (Fin r))) = ''access-keys-rotated''
      \<and> enforcementLevel (projr (iamAccessKeysRotated aws e (Fin r))) = orAdvisory e)
   \<and> iamAccessKeysRotated aws e (Fin 0) = Inl (Error ''Invalid maxKeyAge.'')
   \<and> iamAccessKeysRotated aws e Infinity = Inl (Error ''Invalid maxKeyAge.'')
   \<and> iamAccessKeysRotated aws e NegInfinity = Inl (Error ''Invalid maxKeyAge.'')"
  by (auto simp: iamAccessKeysRotated_def gt_def)

text \<open>Witness: 731 days and half a day are refused, 1 day and 730 days are accepted.\<close>

theorem iamAccessKeysRotated_maxKeyAge_range_witness:
  "iamAccessKeysRotated (exampleProvider noCertificate twoPages [] 0) None (Fin 731)
     = Inl (Error ''Invalid maxKeyAge.'')
   \<and> iamAccessKeysRotated (exampleProvider noCertificate twoPages [] 0) None (Fin (1 / 2))
     = Inl (Error ''Invalid maxKeyAge.'')
   \<and> \<not> isl (iamAccessKeysRotated (exampleProvider noCertificate twoPages [] 0) None (Fin 1))
   \<and> \<not> isl (iamAccessKeysRotated (exampleProvider noCertificate twoPages [] 0) (Some mandatory) (Fin 730))
   \<and> enforcementLevel (projr (iamAccessKeysRotated (exampleProvider noCertificate twoPages [] 0)
        None (Fin 1))) = advisory"
  using iamAccessKeysRotated_maxKeyAge_range
      [of 731 "exampleProvider noCertificate twoPages [] 0" None]
    iamAccessKeysRotated_maxKeyAge_range
      [of "1 / 2" "exampleProvider noCertificate twoPages [] 0" None]
    iamAccessKeysRotated_maxKeyAge_range
      [of 1 "exampleProvider noCertificate twoPages [] 0" None]
    iamAccessKeysRotated_maxKeyAge_range
      [of 730 "exampleProvider noCertificate twoPages [] 0" "Some mandatory"]
  by (simp add: orAdvisory_def)

section \<open>The certificate policy\<close>

text \<open>
  C3 (as amended).  For a stack containing a certificate resource, whatever fields the
  resource carries and wherever it stands in the stack, the \<^verbatim>\<open>acm-certificate-expiration\<close>
  policy, once the resources before it are done, asks the provider for the certificate.
  When the description, or its \<^verbatim>\<open>NotAfter\<close>, is absent, no violation is reported for the
  certificate.  When \<^verbatim>\<open>NotAfter\<close> is present, exactly one violation is reported for it if
  the floored number of days until expiry is below \<^verbatim>\<open>maxDaysUntilExpiration\<close>, and none
  otherwise; the message is \<^verbatim>\<open>certificate expires in\<close> the days until expiry
  \<^verbatim>\<open>(max allowed\<close> the threshold \<^verbatim>\<open>days)\<close>, and it carries no reference to the
  resource.  Then the policy goes on with the resources after the certificate.
\<close>

theorem acmCheckCertificateExpiration_each_certificate:
  assumes "resources args = pre @ r # post" and "type r = acmCertificate"
    and "validateStack (acmCheckCertificateExpiration aws e m) \<lparr>resources = pre\<rparr> s = Some (Inr (), s1)"
    and "describeCertificate aws (field (props r) ''id'') (world s1) = (Inr resp, w)"
  shows "(Certificate resp = None \<or> (\<exists>cd. Certificate resp = Some cd \<and> NotAfter cd = None) \<longrightarrow>
           validateStack (acmCheckCertificateExpiration aws e m) args s
             = validateStack (acmCheckCertificateExpiration aws e m) \<lparr>resources = post\<rparr>
                 (s1\<lparr>world := w\<rparr>))
       \<and> (\<forall>cd t now w'.
             Certificate resp = Some cd \<and> NotAfter cd = Some t \<and> dateNow aws w = (now, w') \<longrightarrow>
           validateStack (acmCheckCertificateExpiration aws e m) args s
             = validateStack (acmCheckCertificateExpiration aws e m) \<lparr>resources = post\<rparr>
                 (s1\<lparr>world := w', reported := reported s1 @
                   (if lt (Fin (of_int ((t - now) div msInDay))) m
                    then [[Lit ''certificate expires in '',
                           Interp (JNum (Fin (of_int ((t - now) div msInDay)))),
                           Lit '' (max allowed '', Interp (JNum m), Lit '' days)'']]
                    else [])\<rparr>))"
proof -
  let ?F = "\<lambda>rs. filter (isInstance acmCertificate) (map resolve rs)"
  have split: "?F (resources args) = ?F pre @ resolve r # ?F post"
    using assms(1,2) by (simp add: isInstance_resolve)
  from assms(3) have pre: "acmCertificatesLoop aws m (?F pre) s = (Inr (), s1)"
    by (simp add: acmCheckCertificateExpiration_validateStack)
  have id: "field (resolve r) ''id'' = field (props r) ''id''"
    by (simp add: field_resolve)
  have whole: "validateStack (acmCheckCertificateExpiration aws e m) args s =
      Some (acmCertificatesLoop aws m (resolve r # ?F post) s1)"
    by (simp add: acmCheckCertificateExpiration_validateStack split acmCertificatesLoop_append pre)
  have rest: "validateStack (acmCheckCertificateExpiration aws e m) \<lparr>resources = post\<rparr> s' =
      Some (acmCertificatesLoop aws m (?F post) s')" for s'
    by (simp add: acmCheckCertificateExpiration_validateStack)
  show ?thesis
    using assms(4)
    by (auto simp: whole rest id Let_def reportViolation_def certificateExpiresMessage_def)
qed

text \<open>
  Witness, at mandatory enforcement and a threshold of 14 days: in a stack of a login
  profile, a certificate, a key and a second certificate, both certificates expire in 10
  days and each gives its violation; a certificate that expires in exactly 14 days gives
  none, and so does a certificate the provider does not describe.
\<close>

theorem acmCheckCertificateExpiration_each_certificate_witness:
  "validateStack (acmCheckCertificateExpiration
      (exampleProvider (certificateUntil (Some (10 * msInDay + 5000))) endlessPages [] 5000)
      (Some mandatory) (Fin 14))
      \<lparr>resources = [exampleLoginProfile, exampleCertificate, exampleKey None, exampleCertificate]\<rparr>
      start
   = Some (Inr (), \<lparr>world = 2, reported =
       [[Lit ''certificate expires in '', Interp (JNum (Fin 10)),
         Lit '' (max allowed '', Interp (JNum (Fin 14)), Lit '' days)''],
        [Lit ''certificate expires in '', Interp (JNum (Fin 10)),
         Lit '' (max allowed '', Interp (JNum (Fin 14)), Lit '' days)'']]\<rparr>)
  \<and> validateStack (acmCheckCertificateExpiration
      (exampleProvider (certificateUntil (Some (14 * msInDay + 5000))) endlessPages [] 5000)
      (Some mandatory) (Fin 14)) \<lparr>resources = [exampleCertificate]\<rparr> start
   = Some (Inr (), \<lparr>world = 1, reported = []\<rparr>)
  \<and> validateStack (acmCheckCertificateExpiration
      (exampleProvider noCertificate endlessPages [] 5000)
      (Some mandatory) (Fin 14)) \<lparr>resources = [exampleCertificate]\<rparr> start
   = Some (Inr (), \<lparr>world = 1, reported = []\<rparr>)"
proof -
  let ?A = "exampleProvider (certificateUntil (Some (10 * msInDay + 5000))) endlessPages [] 5000"
  let ?B = "exampleProvider (certificateUntil (Some (14 * msInDay + 5000))) endlessPages [] 5000"
  let ?C = "exampleProvider noCertificate endlessPages [] 5000"
  let ?pol = "\<lambda>aws :: nat sdk. acmCheckCertificateExpiration aws (Some mandatory) (Fin 14)"
  let ?msg = "[Lit ''certificate expires in '', Interp (JNum (Fin 10)),
         Lit '' (max allowed '', Interp (JNum (Fin 14)), Lit '' days)'']"
  let ?s1 = "\<lparr>world = 1 :: nat, reported = [?msg]\<rparr>"
  have t: "type exampleCertificate = acmCertificate"
    by (simp add: exampleCertificate_def)
  have none: "validateStack (?pol aws) \<lparr>resources = []\<rparr> s = Some (Inr (), s)" for aws s
    by (simp add: acmCheckCertificateExpiration_def validateTypedResources_def)
  have login: "validateStack (?pol aws) \<lparr>resources = [exampleLoginProfile]\<rparr> s = Some (Inr (), s)"
    for aws s
    by (simp add: acmCheckCertificateExpiration_def validateTypedResources_def isInstance_resolve
        example_defs)
  have key: "validateStack (?pol aws) \<lparr>resources = [exampleKey None]\<rparr> s = Some (Inr (), s)"
    for aws s
    by (simp add: acmCheckCertificateExpiration_def validateTypedResources_def isInstance_resolve
        example_defs)
  have d: "describeCertificate (exampleProvider cert endlessPages [] 5000)
      (field (props exampleCertificate) ''id'') (world \<lparr>world = n, reported = rs\<rparr>)
      = (Inr cert, Suc n)" for cert n rs
    by (simp add: exampleProvider_def)
  have n: "dateNow (exampleProvider cert endlessPages [] 5000) w = (5000, w)" for cert w
    by (simp add: exampleProvider_def)
  have a1: "validateStack (?pol ?A)
      \<lparr>resources = [exampleLoginProfile, exampleCertificate, exampleKey None, exampleCertificate]\<rparr>
      start
    = validateStack (?pol ?A) \<lparr>resources = [exampleKey None, exampleCertificate]\<rparr> ?s1"
    using acmCheckCertificateExpiration_each_certificate[where args = "\<lparr>resources =
          [exampleLoginProfile, exampleCertificate, exampleKey None, exampleCertificate]\<rparr>"
        and pre = "[exampleLoginProfile]" and r = exampleCertificate
        and post = "[exampleKey None, exampleCertificate]" and aws = ?A and e = "Some mandatory"
        and m = "Fin 14" and s = start and ?s1.0 = start
        and resp = "certificateUntil (Some (10 * msInDay + 5000))" and w = 1,
        OF _ t login, THEN conjunct2, rule_format,
        of "\<lparr>NotAfter = Some (10 * msInDay + 5000)\<rparr>" "10 * msInDay + 5000" 5000 1]
      d[of "certificateUntil (Some (10 * msInDay + 5000))" 0 "[]"] n
    by (simp add: start_def certificateUntil_def msInDay_def)
  have a2: "validateStack (?pol ?A) \<lparr>resources = [exampleKey None, exampleCertificate]\<rparr> ?s1
    = Some (Inr (), \<lparr>world = 2, reported = [?msg, ?msg]\<rparr>)"
    using acmCheckCertificateExpiration_each_certificate[where args = "\<lparr>resources = [exampleKey None, exampleCertificate]\<rparr>"
        and pre = "[exampleKey None]" and r = exampleCertificate
        and post = "[]" and aws = ?A and e = "Some mandatory"
        and m = "Fin 14" and s = ?s1 and ?s1.0 = ?s1
        and resp = "certificateUntil (Some (10 * msInDay + 5000))" and w = 2,
        OF _ t key, THEN conjunct2, rule_format,
        of "\<lparr>NotAfter = Some (10 * msInDay + 5000)\<rparr>" "10 * msInDay + 5000" 5000 2]
      d[of "certificateUntil (Some (10 * msInDay + 5000))" 1 "[?msg]"] n none
    by (simp add: certificateUntil_def msInDay_def)
  have b: "validateStack (?pol ?B) \<lparr>resources = [exampleCertificate]\<rparr> start
    = Some (Inr (), \<lparr>world = 1, reported = []\<rparr>)"
    using acmCheckCertificateExpiration_each_certificate[where args = "\<lparr>resources = [exampleCertificate]\<rparr>"
        and pre = "[]" and r = exampleCertificate
        and post = "[]" and aws = ?B and e = "Some mandatory"
        and m = "Fin 14" and s = start and ?s1.0 = start
        and resp = "certificateUntil (Some (14 * msInDay + 5000))" and w = 1,
        OF _ t none, THEN conjunct2, rule_format,
        of "\<lparr>NotAfter = Some (14 * msInDay + 5000)\<rparr>" "14 * msInDay + 5000" 5000 1]
      d[of "certificateUntil (Some (14 * msInDay + 5000))" 0 "[]"] n none
    by (simp add: start_def certificateUntil_def msInDay_def)
  have c: "validateStack (?pol ?C) \<lparr>resources = [exampleCertificate]\<rparr> start
    = Some (Inr (), \<lparr>world = 1, reported = []\<rparr>)"
    using acmCheckCertificateExpiration_each_certificate[where args = "\<lparr>resources = [exampleCertificate]\<rparr>"
        and pre = "[]" and r = exampleCertificate
        and post = "[]" and aws = ?C and e = "Some mandatory"
        and m = "Fin 14" and s = start and ?s1.0 = start
        and resp = noCertificate and w = 1,
        OF _ t none, THEN conjunct1]
      d[of noCertificate 0 "[]"] none
    by (simp add: start_def noCertificate_def)
  from a1 a2 b c show ?thesis by simp
qed

text \<open>
  The claim as written fails: the stack holds one certificate with no expiry field, the
  provider describes it without \<^verbatim>\<open>NotAfter\<close>, the policy runs at mandatory enforcement
  with a threshold of 14 days, and no violation is reported.
\<close>

theorem acmCheckCertificateExpiration_no_expiry_counterexample:
  "validateStack (acmCheckCertificateExpiration
      (exampleProvider (certificateUntil None) endlessPages [] 0)
      (Some mandatory) (Fin 14)) \<lparr>resources = [exampleCertificate]\<rparr> start
   = Some (Inr (), \<lparr>world = 1, reported = []\<rparr>)"
  by (simp add: acmCheckCertificateExpiration_def validateTypedResources_def isInstance_def
      resolve_def field_def example_defs)

section \<open>The typed filter\<close>

text \<open>
  C5.  For every resource list and every type predicate, \<^verbatim>\<open>validateTypedResources\<close>
  hands the validation body exactly the resources that match the predicate, in the order
  of the input.  When no resource matches, the body gets the empty list; the bodies of the
  two stack policies then return without an error, without a fetch and without a
  violation.
\<close>

theorem validateTypedResources_filter:
  "validateTypedResources typeFilter validate args =
     validate (filter typeFilter (map resolve (resources args))) args
   \<and> ((\<forall>r \<in> set (resources args). \<not> typeFilter (resolve r)) \<longrightarrow>
        validateTypedResources typeFilter validate args = validate [] args)
   \<and> ((\<forall>r \<in> set (resources args). type r \<noteq> acmCertificate) \<longrightarrow>
        validateStack (acmCheckCertificateExpiration aws e m) args s = Some (Inr (), s))
   \<and> ((\<forall>r \<in> set (resources args). type r \<noteq> iamAccessKey)
        \<and> iamAccessKeysRotated aws e m = Inr p \<longrightarrow>
        validateStack p args s = Some (Inr (), s))"
proof (intro conjI impI)
  show "validateTypedResources typeFilter validate args =
     validate (filter typeFilter (map resolve (resources args))) args"
    by (simp add: validateTypedResources_def)
next
  assume "\<forall>r \<in> set (resources args). \<not> typeFilter (resolve r)"
  then have "filter typeFilter (map resolve (resources args)) = []"
    by (simp add: filter_empty_conv)
  then show "validateTypedResources typeFilter validate args = validate [] args"
    by (simp add: validateTypedResources_def)
next
  assume "\<forall>r \<in> set (resources args). type r \<noteq> acmCertificate"
  then have "filter (isInstance acmCertificate) (map resolve (resources args)) = []"
    by (simp add: filter_empty_conv isInstance_resolve)
  then show "validateStack (acmCheckCertificateExpiration aws e m) args s = Some (Inr (), s)"
    by (simp add: acmCheckCertificateExpiration_def validateTypedResources_def)
next
  assume h: "(\<forall>r \<in> set (resources args). type r \<noteq> iamAccessKey)
    \<and> iamAccessKeysRotated aws e m = Inr p"
  then have *: "filter (isInstance iamAccessKey) (map resolve (resources args)) = []"
    by (simp add: filter_empty_conv isInstance_resolve)
  from h have "validateStack p args s =
      accessKeysLoop aws m (filter (isInstance iamAccessKey) (map resolve (resources args))) s"
    by (auto simp: iamAccessKeysRotated_def validateTypedResources_def split: if_splits)
  with * show "validateStack p args s = Some (Inr (), s)" by simp
qed

text \<open>
  Witness: of an active key, a certificate and an inactive key, a body that reports the
  statuses it is given sees the two keys, in this order; and in a stack without a
  certificate, and without an access key, the two stack policies do nothing.
\<close>

theorem validateTypedResources_filter_witness:
  "validateTypedResources (isInstance iamAccessKey)
     (\<lambda>rs args s. Some (Inr (), reportViolation (map (\<lambda>r. Interp (field r ''status'')) rs) s))
     \<lparr>resources = [exampleAccessKey ''Active'', exampleCertificate, exampleAccessKey ''Inactive'']\<rparr>
     start
   = Some (Inr (), \<lparr>world = 0, reported = [[Interp (JStr ''Active''), Interp (JStr ''Inactive'')]]\<rparr>)
  \<and> validateTypedResources (isInstance kmsKey)
     (\<lambda>rs args s. Some (Inr (), reportViolation (map (\<lambda>r. Interp (field r ''status'')) rs) s))
     \<lparr>resources = [exampleAccessKey ''Active'', exampleCertificate]\<rparr> start
   = Some (Inr (), \<lparr>world = 0, reported = [[]]\<rparr>)
  \<and> validateStack (acmCheckCertificateExpiration
       (exampleProvider (certificateUntil (Some 0)) twoPages [] (1000 * msInDay)) None (Fin 14))
     \<lparr>resources = [exampleLoginProfile, exampleKey None]\<rparr> start
   = Some (Inr (), start)
  \<and> validateStack (projr (iamAccessKeysRotated
       (exampleProvider (certificateUntil (Some 0)) twoPages [] (1000 * msInDay)) None (Fin 90)))
     \<lparr>resources = [exampleLoginProfile, exampleKey None]\<rparr> start
   = Some (Inr (), start)"
proof -
  let ?P = "exampleProvider (certificateUntil (Some 0)) twoPages [] (1000 * msInDay)"
  let ?v = "\<lambda>(rs :: resolved list) (args :: stackValidationArgs) (s :: nat state).
     Some (Inr () :: error + unit, reportViolation (map (\<lambda>r. Interp (field r ''status'')) rs) s)"
  let ?mixed = "\<lparr>resources =
     [exampleAccessKey ''Active'', exampleCertificate, exampleAccessKey ''Inactive'']\<rparr>"
  let ?none = "\<lparr>resources = [exampleAccessKey ''Active'', exampleCertificate]\<rparr>"
  let ?other = "\<lparr>resources = [exampleLoginProfile, exampleKey None]\<rparr>"
  have h2: "\<forall>r \<in> set (resources ?none). \<not> isInstance kmsKey (resolve r)"
    by (simp add: isInstance_resolve example_defs)
  have h3: "\<forall>r \<in> set (resources ?other). type r \<noteq> acmCertificate"
    by (simp add: example_defs)
  have h4: "(\<forall>r \<in> set (resources ?other). type r \<noteq> iamAccessKey)
      \<and> iamAccessKeysRotated ?P None (Fin 90) = Inr (projr (iamAccessKeysRotated ?P None (Fin 90)))"
    by (simp add: example_defs iamAccessKeysRotated_def gt_def)
  have c1: "validateTypedResources (isInstance iamAccessKey) ?v ?mixed start
      = Some (Inr (), \<lparr>world = 0, reported = [[Interp (JStr ''Active''), Interp (JStr ''Inactive'')]]\<rparr>)"
    using validateTypedResources_filter
      [where typeFilter = "isInstance iamAccessKey" and validate = ?v and args = ?mixed,
       THEN conjunct1]
    by (simp add: isInstance_def resolve_def field_def reportViolation_def example_defs)
  have c2: "validateTypedResources (isInstance kmsKey) ?v ?none start
      = Some (Inr (), \<lparr>world = 0, reported = [[]]\<rparr>)"
    using validateTypedResources_filter
      [where typeFilter = "isInstance kmsKey" and validate = ?v and args = ?none,
       THEN conjunct2, THEN conjunct1] h2
    by (simp add: reportViolation_def start_def)
  have c3: "validateStack (acmCheckCertificateExpiration ?P None (Fin 14)) ?other start
      = Some (Inr (), start)"
    using validateTypedResources_filter
      [where args = ?other and aws = ?P and e = None and m = "Fin 14" and s = start,
       THEN conjunct2, THEN conjunct2, THEN conjunct1] h3
    by blast
  have c4: "validateStack (projr (iamAccessKeysRotated ?P None (Fin 90))) ?other start
      = Some (Inr (), start)"
    using validateTypedResources_filter
      [where args = ?other and aws = ?P and e = None and m = "Fin 90" and s = start
         and p = "projr (iamAccessKeysRotated ?P None (Fin 90))",
       THEN conjunct2, THEN conjunct2, THEN conjunct2] h4
    by blast
  from c1 c2 c3 c4 show ?thesis by blast
qed

section \<open>The access-key policy\<close>

text \<open>
  C6.  An access key whose \<^verbatim>\<open>id\<close> is absent (or otherwise falsy), or whose status is
  not \<^verbatim>\<open>Active\<close>, is skipped by the body of \<^verbatim>\<open>iamAccessKeysRotated\<close>: for every
  provider, threshold and state, the body behaves on the stack as it does on the stack
  without this key, and on the key alone it returns at once with the state unchanged, so
  with no fetch and no violation, whatever the age of the key.
\<close>

theorem accessKeysLoop_skips_inactive:
  assumes "inst ''id'' = None \<or> \<not> truthy (field inst ''id'')
      \<or> field inst ''status'' \<noteq> JStr ''Active''"
  shows "accessKeysLoop iam m (pre @ inst # post) s = accessKeysLoop iam m (pre @ post) s
       \<and> accessKeysLoop iam m [inst] s = Some (Inr (), s)"
proof -
  from assms have sk: "\<not> truthy (field inst ''id'') \<or> field inst ''status'' \<noteq> JStr ''Active''"
    by (auto simp: field_absent)
  from accessKeysLoop_skip[OF sk, of iam m pre post s]
    accessKeysLoop_skip[OF sk, of iam m "[]" "[]" s]
  show ?thesis by simp
qed

text \<open>
  Witness: the provider lists the key as created 1000 days ago and counts its requests;
  the inactive key and a key without \<^verbatim>\<open>id\<close> leave the state as it was: no request is
  counted and nothing is reported.
\<close>

theorem accessKeysLoop_skips_inactive_witness:
  "accessKeysLoop (exampleProvider noCertificate twoPages [] (1000 * msInDay)) (Fin 90)
     [resolve (exampleAccessKey ''Inactive'')] start = Some (Inr (), start)
   \<and> accessKeysLoop (exampleProvider noCertificate twoPages [] (1000 * msInDay)) (Fin 90)
     [[''status'' \<mapsto> JStr ''Active'', ''user'' \<mapsto> JStr ''alice'']] start
     = Some (Inr (), start)"
proof -
  let ?P = "exampleProvider noCertificate twoPages [] (1000 * msInDay)"
  let ?i = "resolve (exampleAccessKey ''Inactive'')"
  let ?j = "[''status'' \<mapsto> JStr ''Active'', ''user'' \<mapsto> JStr ''alice''] :: resolved"
  have h1: "?i ''id'' = None \<or> \<not> truthy (field ?i ''id'') \<or> field ?i ''status'' \<noteq> JStr ''Active''"
    by (simp add: resolve_def field_def exampleAccessKey_def)
  have h2: "?j ''id'' = None \<or> \<not> truthy (field ?j ''id'') \<or> field ?j ''status'' \<noteq> JStr ''Active''"
    by simp
  have r1: "accessKeysLoop ?P (Fin 90) [?i] start = Some (Inr (), start)"
    by (rule accessKeysLoop_skips_inactive[OF h1, THEN conjunct2])
  have r2: "accessKeysLoop ?P (Fin 90) [?j] start = Some (Inr (), start)"
    by (rule accessKeysLoop_skips_inactive[OF h2, THEN conjunct2])
  from r1 r2 show ?thesis by (rule conjI)
qed

text \<open>
  C8.  In \<^verbatim>\<open>iamAccessKeysRotated\<close> an item of a fetched page that does not carry the
  \<^verbatim>\<open>id\<close> of the access key under validation as its \<^verbatim>\<open>AccessKeyId\<close>, or that has no
  \<^verbatim>\<open>CreateDate\<close>, is discarded without effect: the page is processed as if the item were
  not in it.  So only an item with the key's \<^verbatim>\<open>id\<close> and a \<^verbatim>\<open>CreateDate\<close> can give a
  violation.
\<close>

theorem accessKeyMetadataLoop_discards_uncorrelated:
  assumes "truthy (field inst ''id'')"
    and "(\<forall>k. AccessKeyId ak = Some k \<longrightarrow> field inst ''id'' \<noteq> JStr k) \<or> CreateDate ak = None"
  shows "accessKeyMetadataLoop iam m inst (pre @ ak # post) s =
         accessKeyMetadataLoop iam m inst (pre @ post) s"
proof -
  from assms have "\<not> strictEq (AccessKeyId ak) (field inst ''id'') \<or> CreateDate ak = None"
    by (auto simp: strictEq_truthy)
  then show ?thesis by (rule accessKeyMetadataLoop_discard)
qed

text \<open>
  Witness: a page with another user's key and with the key itself, undated, both 1000
  days behind the clock, changes nothing.
\<close>

theorem accessKeyMetadataLoop_discards_uncorrelated_witness:
  "accessKeyMetadataLoop (exampleProvider noCertificate twoPages [] (1000 * msInDay)) (Fin 90)
     (resolve (exampleAccessKey ''Active''))
     [\<lparr>AccessKeyId = Some ''AKIA0'', CreateDate = Some 0\<rparr>,
      \<lparr>AccessKeyId = Some ''AKIA1'', CreateDate = None\<rparr>] start = start"
proof -
  let ?P = "exampleProvider noCertificate twoPages [] (1000 * msInDay)"
  let ?i = "resolve (exampleAccessKey ''Active'')"
  let ?a = "\<lparr>AccessKeyId = Some ''AKIA0'', CreateDate = Some (0::int)\<rparr>"
  let ?b = "\<lparr>AccessKeyId = Some ''AKIA1'', CreateDate = None :: int option\<rparr>"
  have t: "truthy (field ?i ''id'')"
    by (simp add: resolve_def field_def exampleAccessKey_def)
  have ha: "(\<forall>k. AccessKeyId ?a = Some k \<longrightarrow> field ?i ''id'' \<noteq> JStr k) \<or> CreateDate ?a = None"
    by (simp add: resolve_def field_def exampleAccessKey_def)
  have hb: "(\<forall>k. AccessKeyId ?b = Some k \<longrightarrow> field ?i ''id'' \<noteq> JStr k) \<or> CreateDate ?b = None"
    by simp
  from accessKeyMetadataLoop_discards_uncorrelated[OF t ha, of ?P "Fin 90" "[]" "[?b]" start]
    accessKeyMetadataLoop_discards_uncorrelated[OF t hb, of ?P "Fin 90" "[]" "[]" start]
  show ?thesis by simp
qed

text \<open>
  C9.  The age test of \<^verbatim>\<open>iamAccessKeysRotated\<close> is strict, on whole days rounded down.
  Every active access key of the stack, wherever it stands, has its pages listed with the
  configured \<^verbatim>\<open>maxKeyAge\<close> once the keys before it are done; and on every page of that
  listing, an item at any place that carries the key's \<^verbatim>\<open>id\<close> and a \<^verbatim>\<open>CreateDate\<close>
  gives a violation exactly when the floor of \<^verbatim>\<open>(now - CreateDate) / msInDay\<close> is
  greater than \<^verbatim>\<open>maxKeyAge\<close>.  A key whose age in whole days equals \<^verbatim>\<open>maxKeyAge\<close>
  gives no violation.
\<close>

theorem accessKeysLoop_strictly_older:
  assumes "field inst ''id'' = JStr k" and "k \<noteq> []"
    and "field inst ''status'' = JStr ''Active''"
  shows "(accessKeysLoop iam m pre s = Some (Inr (), s1) \<longrightarrow>
           accessKeysLoop iam m (pre @ inst # post) s =
             (case listAccessKeysLoop iam m inst None s1 of
                None \<Rightarrow> None
              | Some (Inl e, s') \<Rightarrow> Some (Inl e, s')
              | Some (Inr u, s') \<Rightarrow> accessKeysLoop iam m post s'))
       \<and> (listAccessKeys iam (field inst ''user'') tok (world s0) = (Inr resp, w0)
            \<and> AccessKeyMetadata resp = ipre @ ak # ipost
            \<and> AccessKeyId ak = Some k \<and> CreateDate ak = Some c
            \<and> accessKeyMetadataLoop iam (Fin q) inst ipre (s0\<lparr>world := w0\<rparr>) = s2
            \<and> dateNow iam (world s2) = (now, w) \<longrightarrow>
           listAccessKeysLoop iam (Fin q) inst tok s0 =
             (let s3 = accessKeyMetadataLoop iam (Fin q) inst ipost
                         (s2\<lparr>world := w, reported := reported s2 @
                            (if q < of_int ((now - c) div msInDay)
                             then [[Lit ''access key must be rotated within '', Interp (JNum (Fin q)),
                                    Lit '' days (key is '',
                                    Interp (JNum (Fin (of_int ((now - c) div msInDay)))),
                                    Lit '' days old)'']]
                             else [])\<rparr>)
              in if IsTruncated resp = Some True
                 then listAccessKeysLoop iam (Fin q) inst (Marker resp) s3
                 else Some (Inr (), s3))
           \<and> (q = of_int ((now - c) div msInDay) \<longrightarrow>
                accessKeyMetadataLoop iam (Fin q) inst (AccessKeyMetadata resp) (s0\<lparr>world := w0\<rparr>)
                  = accessKeyMetadataLoop iam (Fin q) inst ipost (s2\<lparr>world := w\<rparr>)))"
proof (intro conjI impI)
  assume "accessKeysLoop iam m pre s = Some (Inr (), s1)"
  with assms show "accessKeysLoop iam m (pre @ inst # post) s =
             (case listAccessKeysLoop iam m inst None s1 of
                None \<Rightarrow> None
              | Some (Inl e, s') \<Rightarrow> Some (Inl e, s')
              | Some (Inr u, s') \<Rightarrow> accessKeysLoop iam m post s')"
    by (simp add: accessKeysLoop_append)
next
  assume h: "listAccessKeys iam (field inst ''user'') tok (world s0) = (Inr resp, w0)
            \<and> AccessKeyMetadata resp = ipre @ ak # ipost
            \<and> AccessKeyId ak = Some k \<and> CreateDate ak = Some c
            \<and> accessKeyMetadataLoop iam (Fin q) inst ipre (s0\<lparr>world := w0\<rparr>) = s2
            \<and> dateNow iam (world s2) = (now, w)"
  let ?d = "(now - c) div msInDay"
  let ?msg = "[Lit ''access key must be rotated within '', Interp (JNum (Fin q)),
                                    Lit '' days (key is '',
                                    Interp (JNum (Fin (of_int ?d))),
                                    Lit '' days old)'']"
  let ?s' = "s2\<lparr>world := w, reported := reported s2 @ (if q < of_int ?d then [?msg] else [])\<rparr>"
  from h have a: "AccessKeyId ak = Some k" and c: "CreateDate ak = Some c"
    and n: "dateNow iam (world s2) = (now, w)"
    by simp_all
  have item: "accessKeyMetadataLoop iam (Fin q) inst (ak # ipost) s2 =
      accessKeyMetadataLoop iam (Fin q) inst ipost ?s'"
    using accessKeyMetadataLoop_match[OF assms(1) a c n, where m = "Fin q" and rest = ipost]
    by (simp add: keyMustBeRotatedMessage_def)
  from h have page: "accessKeyMetadataLoop iam (Fin q) inst (AccessKeyMetadata resp) (s0\<lparr>world := w0\<rparr>)
      = accessKeyMetadataLoop iam (Fin q) inst ipost ?s'"
    by (simp add: accessKeyMetadataLoop_append item del: accessKeyMetadataLoop.simps)
  from h have l: "listAccessKeys iam (field inst ''user'') tok (world s0) = (Inr resp, w0)"
    by simp
  show "listAccessKeysLoop iam (Fin q) inst tok s0 =
             (let s3 = accessKeyMetadataLoop iam (Fin q) inst ipost ?s'
              in if IsTruncated resp = Some True
                 then listAccessKeysLoop iam (Fin q) inst (Marker resp) s3
                 else Some (Inr (), s3))"
    using listAccessKeysLoop_more[OF l, of "Fin q"] listAccessKeysLoop_last[OF l, of "Fin q"] page
    by (simp add: Let_def)
  show "accessKeyMetadataLoop iam (Fin q) inst (AccessKeyMetadata resp) (s0\<lparr>world := w0\<rparr>)
        = accessKeyMetadataLoop iam (Fin q) inst ipost (s2\<lparr>world := w\<rparr>)"
    if "q = of_int ?d"
  proof -
    from that have eq: "?s' = s2\<lparr>world := w\<rparr>" by simp
    show ?thesis using page unfolding eq .
  qed
qed

text \<open>
  Witness, with 90 days allowed and the same active key twice in the stack, its item
  second on the page: one millisecond short of 91 days the key is 90 whole days old and
  neither of the two gives a violation; at 91 days each gives one.
\<close>

theorem accessKeysLoop_strictly_older_witness:
  "accessKeysLoop (exampleProvider noCertificate
       (\<lambda>marker. Inr \<lparr> AccessKeyMetadata = [\<lparr> AccessKeyId = Some ''AKIA0'', CreateDate = Some 0 \<rparr>,
                                            \<lparr> AccessKeyId = Some ''AKIA1'', CreateDate = Some 0 \<rparr>],
                        IsTruncated = Some False, Marker = None \<rparr>)
       [] (91 * msInDay - 1))
     (Fin 90) [resolve (exampleAccessKey ''Active''), resolve (exampleAccessKey ''Active'')] start
   = Some (Inr (), \<lparr>world = 2, reported = []\<rparr>)
  \<and> accessKeysLoop (exampleProvider noCertificate
       (\<lambda>marker. Inr \<lparr> AccessKeyMetadata = [\<lparr> AccessKeyId = Some ''AKIA0'', CreateDate = Some 0 \<rparr>,
                                            \<lparr> AccessKeyId = Some ''AKIA1'', CreateDate = Some 0 \<rparr>],
                        IsTruncated = Some False, Marker = None \<rparr>)
       [] (91 * msInDay))
     (Fin 90) [resolve (exampleAccessKey ''Active''), resolve (exampleAccessKey ''Active'')] start
   = Some (Inr (), \<lparr>world = 2, reported =
       [[Lit ''access key must be rotated within '', Interp (JNum (Fin 90)),
         Lit '' days (key is '', Interp (JNum (Fin 91)), Lit '' days old)''],
        [Lit ''access key must be rotated within '', Interp (JNum (Fin 90)),
         Lit '' days (key is '', Interp (JNum (Fin 91)), Lit '' days old)'']]\<rparr>)"
proof -
  let ?fo = "\<lparr> AccessKeyId = Some ''AKIA0'', CreateDate = Some (0::int) \<rparr>"
  let ?ak = "\<lparr> AccessKeyId = Some ''AKIA1'', CreateDate = Some (0::int) \<rparr>"
  let ?page = "\<lparr> AccessKeyMetadata = [?fo, ?ak], IsTruncated = Some False, Marker = None \<rparr>"
  let ?P = "\<lambda>now. exampleProvider noCertificate (\<lambda>marker. Inr ?page) [] now"
  let ?i = "resolve (exampleAccessKey ''Active'')"
  let ?v = "\<lambda>now :: int. if (90 :: rat) < of_int ((now - 0) div msInDay)
     then [[Lit ''access key must be rotated within '', Interp (JNum (Fin 90)),
            Lit '' days (key is '', Interp (JNum (Fin (of_int ((now - 0) div msInDay)))),
            Lit '' days old)'']]
     else []"
  have i1: "field ?i ''id'' = JStr ''AKIA1''" and i2: "''AKIA1'' \<noteq> []"
    and i3: "field ?i ''status'' = JStr ''Active''"
    by (simp_all add: resolve_def field_def exampleAccessKey_def)
  have h: "listAccessKeys (?P now) (field ?i ''user'') None (world \<lparr>world = n, reported = rs\<rparr>)
        = (Inr ?page, Suc n)
      \<and> AccessKeyMetadata ?page = [?fo] @ ?ak # []
      \<and> AccessKeyId ?ak = Some ''AKIA1'' \<and> CreateDate ?ak = Some 0
      \<and> accessKeyMetadataLoop (?P now) (Fin 90) ?i [?fo] (\<lparr>world = n, reported = rs\<rparr>\<lparr>world := Suc n\<rparr>)
           = \<lparr>world = Suc n, reported = rs\<rparr>
      \<and> dateNow (?P now) (world \<lparr>world = Suc n, reported = rs\<rparr>) = (now, Suc n)" for now n rs
    by (simp add: exampleProvider_def i1)
  have B: "listAccessKeysLoop (?P now) (Fin 90) ?i None \<lparr>world = n, reported = rs\<rparr>
      = Some (Inr (), \<lparr>world = Suc n, reported = rs @ ?v now\<rparr>)" for now n rs
    using accessKeysLoop_strictly_older[where iam = "?P now" and tok = None
        and ?s0.0 = "\<lparr>world = n, reported = rs\<rparr>" and resp = ?page and ?w0.0 = "Suc n"
        and ipre = "[?fo]" and ak = ?ak and ipost = "[]" and c = 0 and q = 90
        and ?s2.0 = "\<lparr>world = Suc n, reported = rs\<rparr>" and now = now and w = "Suc n",
        OF i1 i2 i3, THEN conjunct2, THEN mp, OF h, THEN conjunct1]
    by simp
  have A1: "accessKeysLoop (?P now) (Fin 90) [?i] start
      = Some (Inr (), \<lparr>world = 1, reported = ?v now\<rparr>)" for now
    using accessKeysLoop_strictly_older[where iam = "?P now" and m = "Fin 90"
        and pre = "[]" and post = "[]" and s = start and ?s1.0 = start,
        OF i1 i2 i3, THEN conjunct1]
      B[of now 0 "[]"]
    by (simp add: start_def del: accessKeysLoop.simps(2))
  have A2: "accessKeysLoop (?P now) (Fin 90) [?i, ?i] start
      = Some (Inr (), \<lparr>world = 2, reported = ?v now @ ?v now\<rparr>)" for now
    using accessKeysLoop_strictly_older[where iam = "?P now" and m = "Fin 90"
        and pre = "[?i]" and post = "[]" and s = start
        and ?s1.0 = "\<lparr>world = 1, reported = ?v now\<rparr>",
        OF i1 i2 i3, THEN conjunct1]
      A1[of now] B[of now 1 "?v now"]
    by (simp del: accessKeysLoop.simps(2))
  from A2[of "91 * msInDay - 1"] A2[of "91 * msInDay"]
  show ?thesis by (simp add: msInDay_def)
qed

section \<open>The resource policies\<close>

text \<open>
  C7.  For a console-login (\<^verbatim>\<open>UserLoginProfile\<close>) resource whose MFA devices the provider
  lists, the \<^verbatim>\<open>mfa-enabled-for-iam-console-access\<close> policy reports exactly one violation,
  with the message \<^verbatim>\<open>no MFA device enabled for IAM User\<close> and, between single quotes,
  the user of the resource, when the list is empty, and no violation when the list has one
  device or more.
\<close>

theorem iamMfaEnabledForConsoleAccess_devices:
  assumes "type r = iamUserLoginProfile"
    and "listMFADevices aws (field (props r) ''user'') (world s) = (Inr resp, w)"
  shows "validateResource (iamMfaEnabledForConsoleAccess aws e) r s =
           Some (Inr (), s\<lparr>world := w, reported := reported s @
              (if MFADevices resp = []
               then [[Lit (''no MFA device enabled for IAM User '' @ [CHR 0x27]),
                      Interp (field (props r) ''user''), Lit [CHR 0x27]]]
               else [])\<rparr>)"
  using assms
  by (simp add: iamMfaEnabledForConsoleAccess_def validateTypedResource_def isInstance_resolve
      field_resolve reportViolation_def noMfaDeviceMessage_def)

text \<open>Witness: no device gives the violation that names \<open>alice\<close>, one device gives none.\<close>

theorem iamMfaEnabledForConsoleAccess_devices_witness:
  "validateResource (iamMfaEnabledForConsoleAccess
      (exampleProvider noCertificate twoPages [] 0) (Some mandatory)) exampleLoginProfile start
   = Some (Inr (), \<lparr>world = 1, reported =
       [[Lit (''no MFA device enabled for IAM User '' @ [CHR 0x27]),
         Interp (JStr ''alice''), Lit [CHR 0x27]]]\<rparr>)
  \<and> validateResource (iamMfaEnabledForConsoleAccess
      (exampleProvider noCertificate twoPages [''arn:aws:iam::mfa/alice''] 0) (Some mandatory))
      exampleLoginProfile start
   = Some (Inr (), \<lparr>world = 1, reported = []\<rparr>)"
proof -
  let ?P = "\<lambda>devices. exampleProvider noCertificate twoPages devices 0"
  have t: "type exampleLoginProfile = iamUserLoginProfile"
    by (simp add: exampleLoginProfile_def)
  have l: "listMFADevices (?P devices) (field (props exampleLoginProfile) ''user'') (world start)
      = (Inr \<lparr>MFADevices = devices\<rparr>, 1)" for devices
    by (simp add: exampleProvider_def start_def)
  have u: "field (props exampleLoginProfile) ''user'' = JStr ''alice''"
    by (simp add: exampleLoginProfile_def field_def)
  from iamMfaEnabledForConsoleAccess_devices[OF t l, of "[]" "Some mandatory"]
    iamMfaEnabledForConsoleAccess_devices[OF t l, of "[''arn:aws:iam::mfa/alice'']" "Some mandatory"]
  show ?thesis by (simp add: u start_def)
qed

text \<open>
  C10.  For a KMS key the \<^verbatim>\<open>cmk-backing-key-rotation-enabled\<close> policy reports one violation
  whenever \<^verbatim>\<open>enableKeyRotation\<close> is falsy, and none otherwise.  An absent property is
  falsy, so it is treated as rotation disabled; and for the boolean the property is
  declared to be, no violation is reported exactly when it is \<^verbatim>\<open>true\<close>.
\<close>

theorem cmkBackingKeyRotationEnabled_falsy:
  assumes "type r = kmsKey"
  shows "validateResource (cmkBackingKeyRotationEnabled e) r s =
           Some (Inr (), if truthy (field (props r) ''enableKeyRotation'') then s
                         else s\<lparr>reported := reported s @ [cmkRotationMessage]\<rparr>)
       \<and> (props r ''enableKeyRotation'' = None \<longrightarrow>
           validateResource (cmkBackingKeyRotationEnabled e) r s =
             Some (Inr (), s\<lparr>reported := reported s @ [cmkRotationMessage]\<rparr>))
       \<and> (\<forall>b. props r ''enableKeyRotation'' = Some (JBool b) \<longrightarrow>
           (validateResource (cmkBackingKeyRotationEnabled e) r s = Some (Inr (), s)) = b)"
proof -
  have main: "validateResource (cmkBackingKeyRotationEnabled e) r s =
           Some (Inr (), if truthy (field (props r) ''enableKeyRotation'') then s
                         else s\<lparr>reported := reported s @ [cmkRotationMessage]\<rparr>)"
    using assms
    by (simp add: cmkBackingKeyRotationEnabled_def validateTypedResource_def isInstance_resolve
        field_resolve reportViolation_def)
  have "s\<lparr>reported := reported s @ [cmkRotationMessage]\<rparr> \<noteq> s"
  proof
    assume "s\<lparr>reported := reported s @ [cmkRotationMessage]\<rparr> = s"
    then have "reported (s\<lparr>reported := reported s @ [cmkRotationMessage]\<rparr>) = reported s"
      by simp
    then show False by simp
  qed
  with main show ?thesis by (auto simp: field_def)
qed

text \<open>
  Witness: a key without the property and a key with the property \<^verbatim>\<open>false\<close> are reported,
  a key with the property \<^verbatim>\<open>true\<close> is not.
\<close>

theorem cmkBackingKeyRotationEnabled_falsy_witness:
  "validateResource (cmkBackingKeyRotationEnabled (Some mandatory)) (exampleKey None) start
     = Some (Inr (), \<lparr>world = 0, reported = [cmkRotationMessage]\<rparr>)
   \<and> validateResource (cmkBackingKeyRotationEnabled (Some mandatory))
       (exampleKey (Some (JBool False))) start
     = Some (Inr (), \<lparr>world = 0, reported = [cmkRotationMessage]\<rparr>)
   \<and> validateResource (cmkBackingKeyRotationEnabled (Some mandatory))
       (exampleKey (Some (JBool True))) start
     = Some (Inr (), \<lparr>world = 0, reported = []\<rparr>)"
proof -
  have t: "type (exampleKey v) = kmsKey" for v
    by (simp add: exampleKey_def)
  from cmkBackingKeyRotationEnabled_falsy[OF t, of "Some mandatory" None start, THEN conjunct1]
    cmkBackingKeyRotationEnabled_falsy[OF t, of "Some mandatory" "Some (JBool False)" start,
      THEN conjunct1]
    cmkBackingKeyRotationEnabled_falsy[OF t, of "Some mandatory" "Some (JBool True)" start,
      THEN conjunct1]
  show ?thesis by (simp add: exampleKey_def field_def start_def)
qed

end
